theory Spec2Isabelle
  imports Main "HOL-Library.Word" "HOL-Library.Sublist"
begin

section \<open>Values of the program\<close>

text \<open>
  The program is one Flask module, \<^verbatim>\<open>app.py\<close>.  Every value it inspects is either a
  Python string, a byte string, or a value decoded from JSON (the reply of the
  generative-language service and the report encoded inside it).  A decoded JSON value
  is a Python \<^verbatim>\<open>None\<close>, \<^verbatim>\<open>bool\<close>, \<^verbatim>\<open>int\<close>, \<^verbatim>\<open>float\<close>, \<^verbatim>\<open>str\<close>, \<^verbatim>\<open>list\<close> or \<^verbatim>\<open>dict\<close> with
  string keys.  A dict is kept as an association list in insertion order and is read
  with \<^const>\<open>map_of\<close>; a float is kept as its 64-bit pattern, the program never looks
  inside one.
\<close>

type_synonym byte = "8 word"

datatype json =
    JNull
  | JBool bool
  | JInt int
  | JFloat "64 word"
  | JStr string
  | JArr "json list"
  | JObj "(string \<times> json) list"

text \<open>
  The exceptions that can travel through the two functions, one constructor for each
  class an \<^verbatim>\<open>except\<close> clause of the program can tell apart.  \<open>RequestException\<close> stands
  for every instance of \<^verbatim>\<open>requests.exceptions.RequestException\<close> (connection error,
  timeout, the \<^verbatim>\<open>HTTPError\<close> of \<^verbatim>\<open>raise_for_status\<close>, an undecodable body in
  \<^verbatim>\<open>response.json()\<close>); \<open>PyException\<close> is a plain \<^verbatim>\<open>Exception(msg)\<close>.  Each carries
  what \<^verbatim>\<open>str(e)\<close> prints, except \<open>KeyError\<close>, which carries the key.
\<close>

datatype exn =
    RequestException string
  | JSONDecodeError string
  | KeyError json
  | IndexError string
  | TypeError string
  | AttributeError string
  | PyException string

text \<open>
  \<^verbatim>\<open>str(x)\<close> of a string is the string; of any other decoded value it is Python's
  \<^verbatim>\<open>repr\<close>, which is taken as a parameter \<open>repr\<close> throughout.
\<close>

definition py_str :: "(json \<Rightarrow> string) \<Rightarrow> json \<Rightarrow> string" where
  "py_str repr v = (case v of JStr s \<Rightarrow> s | _ \<Rightarrow> repr v)"

fun str_exn :: "(json \<Rightarrow> string) \<Rightarrow> exn \<Rightarrow> string" where
  "str_exn repr (RequestException m) = m"
| "str_exn repr (JSONDecodeError m) = m"
| "str_exn repr (KeyError k) = repr k"
| "str_exn repr (IndexError m) = m"
| "str_exn repr (TypeError m) = m"
| "str_exn repr (AttributeError m) = m"
| "str_exn repr (PyException m) = m"

text \<open>\<^verbatim>\<open>str(n)\<close> of an integer, for the f-strings that print a count.\<close>

definition digit_char :: "nat \<Rightarrow> char" where
  "digit_char d = ''0123456789'' ! d"

function str_nat :: "nat \<Rightarrow> string" where
  "str_nat n = (if n < 10 then [digit_char n] else str_nat (n div 10) @ [digit_char (n mod 10)])"
  by pat_completeness auto
termination
  by (relation "measure id") auto

declare str_nat.simps [simp del]

definition str_int :: "int \<Rightarrow> string" where
  "str_int i = (if i < 0 then CHR ''-'' # str_nat (nat (- i)) else str_nat (nat i))"

section \<open>Python operations on decoded values\<close>

text \<open>The name of a value's type, as CPython prints it in its error messages, and a
  name between apostrophes.\<close>

definition quoted :: "string \<Rightarrow> string" where
  "quoted s = [CHR 0x27] @ s @ [CHR 0x27]"

fun type_name :: "json \<Rightarrow> string" where
  "type_name JNull = ''NoneType''"
| "type_name (JBool b) = ''bool''"
| "type_name (JInt i) = ''int''"
| "type_name (JFloat f) = ''float''"
| "type_name (JStr s) = ''str''"
| "type_name (JArr xs) = ''list''"
| "type_name (JObj kvs) = ''dict''"

text \<open>
  \<^verbatim>\<open>key in v\<close> for a string \<open>key\<close>: key membership in a dict, element membership in a
  list, substring test in a string, and a \<^verbatim>\<open>TypeError\<close> on the other values.
\<close>

fun py_in :: "string \<Rightarrow> json \<Rightarrow> exn + bool" where
  "py_in k (JObj kvs) = Inr (k \<in> set (map fst kvs))"
| "py_in k (JArr xs) = Inr (JStr k \<in> set xs)"
| "py_in k (JStr s) = Inr (sublist k s)"
| "py_in k v = Inl (TypeError (''argument of type '' @ quoted (type_name v) @ '' is not iterable''))"

text \<open>\<^verbatim>\<open>v.get(key, default)\<close>: defined on a dict, an \<^verbatim>\<open>AttributeError\<close> elsewhere.\<close>

fun py_get :: "json \<Rightarrow> string \<Rightarrow> json \<Rightarrow> exn + json" where
  "py_get (JObj kvs) k d = Inr (case map_of kvs k of Some v \<Rightarrow> v | None \<Rightarrow> d)"
| "py_get v k d = Inl (AttributeError (quoted (type_name v) @ '' object has no attribute '' @ quoted ''get''))"

text \<open>
  \<^verbatim>\<open>v['key']\<close> with a string key: a \<^verbatim>\<open>KeyError\<close> on a dict without the key, a
  \<^verbatim>\<open>TypeError\<close> on everything that is not a dict.
\<close>

fun getitem_str :: "json \<Rightarrow> string \<Rightarrow> exn + json" where
  "getitem_str (JObj kvs) k = (case map_of kvs k of Some v \<Rightarrow> Inr v | None \<Rightarrow> Inl (KeyError (JStr k)))"
| "getitem_str (JArr xs) k = Inl (TypeError ''list indices must be integers or slices, not str'')"
| "getitem_str (JStr s) k = Inl (TypeError (''string indices must be integers, not '' @ quoted ''str''))"
| "getitem_str v k = Inl (TypeError (quoted (type_name v) @ '' object is not subscriptable''))"

text \<open>
  \<^verbatim>\<open>v[0]\<close>: the first element of a list or string, an \<^verbatim>\<open>IndexError\<close> when it is empty,
  a \<^verbatim>\<open>KeyError\<close> on a dict (whose keys are strings), a \<^verbatim>\<open>TypeError\<close> elsewhere.
\<close>

fun getitem_0 :: "json \<Rightarrow> exn + json" where
  "getitem_0 (JArr []) = Inl (IndexError ''list index out of range'')"
| "getitem_0 (JArr (x # xs)) = Inr x"
| "getitem_0 (JStr []) = Inl (IndexError ''string index out of range'')"
| "getitem_0 (JStr (c # cs)) = Inr (JStr [c])"
| "getitem_0 (JObj kvs) = Inl (KeyError (JInt 0))"
| "getitem_0 v = Inl (TypeError (quoted (type_name v) @ '' object is not subscriptable''))"

text \<open>Sequencing of steps that may raise: the first exception ends the sequence.\<close>

definition then_do :: "exn + 'a \<Rightarrow> ('a \<Rightarrow> exn + 'b) \<Rightarrow> exn + 'b" where
  "then_do r f = (case r of Inl e \<Rightarrow> Inl e | Inr v \<Rightarrow> f v)"

section \<open>Configuration\<close>

text \<open>
  \<^verbatim>\<open>RESPONSE_SCHEMA\<close>, the structured-output schema sent with every request.  Its
  \<^verbatim>\<open>required\<close> entry is named on its own, because the handler reads it again when it
  validates the report.
\<close>

definition RESPONSE_SCHEMA_required :: "string list" where
  "RESPONSE_SCHEMA_required =
     [''match_percentage'', ''strengths'', ''improvement_suggestions'', ''matching_skills'', ''missing_skills'']"

definition RESPONSE_SCHEMA :: json where
  "RESPONSE_SCHEMA = JObj
     [(''type'', JStr ''OBJECT''),
      (''properties'', JObj
         [(''match_percentage'', JObj
             [(''type'', JStr ''STRING''),
              (''description'', JStr ''The overall match score as a percentage string, e.g., '75%'.'')]),
          (''strengths'', JObj
             [(''type'', JStr ''STRING''),
              (''description'', JStr ''A detailed, short paragraph summarizing the key strengths of the resume relative to the JD.'')]),
          (''improvement_suggestions'', JObj
             [(''type'', JStr ''STRING''),
              (''description'', JStr ''A detailed, short paragraph providing specific suggestions for improving the resume's match.'')]),
          (''matching_skills'', JObj
             [(''type'', JStr ''ARRAY''),
              (''items'', JObj [(''type'', JStr ''STRING'')]),
              (''description'', JStr ''A list of relevant technical and soft skills found in the resume that match the JD.'')]),
          (''missing_skills'', JObj
             [(''type'', JStr ''ARRAY''),
              (''items'', JObj [(''type'', JStr ''STRING'')]),
              (''description'', JStr ''A list of critical skills mentioned in the JD that are missing or weakly represented in the resume.'')])]),
      (''required'', JArr (map JStr RESPONSE_SCHEMA_required))]"

section \<open>Utility functions\<close>

text \<open>
  \<^verbatim>\<open>base64.b64encode(file_bytes).decode('utf-8')\<close>: the standard alphabet, three bytes to
  four characters, \<^verbatim>\<open>=\<close> padding on a last group of one or two bytes.
\<close>

definition b64_alphabet :: string where
  "b64_alphabet = ''ABCDEFGHIJKLMNOPQRSTUVWXYZabcdefghijklmnopqrstuvwxyz0123456789+/''"

definition b64_char :: "nat \<Rightarrow> char" where
  "b64_char n = b64_alphabet ! (n mod 64)"

fun b64encode :: "byte list \<Rightarrow> string" where
  "b64encode [] = []"
| "b64encode [a] =
     (let n = unat a * 65536
      in [b64_char (n div 262144), b64_char (n div 4096), CHR ''='', CHR ''=''])"
| "b64encode [a, b] =
     (let n = unat a * 65536 + unat b * 256
      in [b64_char (n div 262144), b64_char (n div 4096), b64_char (n div 64), CHR ''=''])"
| "b64encode (a # b # c # rest) =
     (let n = unat a * 65536 + unat b * 256 + unat c
      in [b64_char (n div 262144), b64_char (n div 4096), b64_char (n div 64), b64_char n]
         @ b64encode rest)"

text \<open>
  \<^verbatim>\<open>file_to_base64_part(file_stream, mime_type)\<close>.  The stream is the bytes not yet read;
  \<^verbatim>\<open>read()\<close> returns all of them and leaves the stream at its end, so the function
  returns the part together with the emptied stream.
\<close>

definition file_to_base64_part :: "byte list \<Rightarrow> string \<Rightarrow> json \<times> byte list" where
  "file_to_base64_part file_stream mime_type =
     (let file_bytes = file_stream;
          encoded_string = b64encode file_bytes
      in (JObj [(''inlineData'', JObj [(''mimeType'', JStr mime_type), (''data'', JStr encoded_string)])],
          []))"

section \<open>The outbound call with backoff\<close>

text \<open>
  The network is the environment: \<open>env k\<close> is what the \<open>k\<close>-th call of \<^verbatim>\<open>requests.post\<close>
  meets.  Either the call raises (a connection error, a timeout), or it returns a response.
  Of a response the function uses \<^verbatim>\<open>raise_for_status()\<close>, which raises an \<^verbatim>\<open>HTTPError\<close> on
  a status from 400 to 599 and on no other status, with a message made of the status, the
  reason phrase and the URL; and \<^verbatim>\<open>json()\<close>, which returns the decoded body or raises.
  What the function does to the world is a trace of events: a request posted with its
  payload, a line printed, a sleep of so many seconds.
\<close>

record http_response =
  status_code :: nat
  reason :: string
  url :: string
  json_result :: "exn + json"

datatype outcome = Raises exn | Responds http_response

definition raise_for_status :: "http_response \<Rightarrow> exn + unit" where
  "raise_for_status response =
     (if 400 \<le> status_code response \<and> status_code response < 500 then
        Inl (RequestException (str_nat (status_code response) @ '' Client Error: '' @ reason response
                               @ '' for url: '' @ url response))
      else if 500 \<le> status_code response \<and> status_code response < 600 then
        Inl (RequestException (str_nat (status_code response) @ '' Server Error: '' @ reason response
                               @ '' for url: '' @ url response))
      else Inr ())"

datatype event = Post json | Print string | Sleep nat

text \<open>
  Lines 57 to 61, on the decoded body: a body with an \<^verbatim>\<open>error\<close> entry raises a plain
  \<^verbatim>\<open>Exception\<close> that quotes the entry's \<^verbatim>\<open>message\<close>; any other body is returned.
\<close>

definition check_result :: "(json \<Rightarrow> string) \<Rightarrow> json \<Rightarrow> exn + json" where
  "check_result repr result =
     then_do (py_in ''error'' result) (\<lambda>has_error.
       if has_error then
         then_do (py_get result ''error'' (JObj [])) (\<lambda>err.
         then_do (py_get err ''message'' (JStr ''Unknown API Error'')) (\<lambda>error_message.
           Inl (PyException (''Gemini API error: '' @ py_str repr error_message))))
       else Inr result)"

text \<open>The body of the \<^verbatim>\<open>try\<close> block for one attempt.\<close>

definition try_body :: "(json \<Rightarrow> string) \<Rightarrow> outcome \<Rightarrow> exn + json" where
  "try_body repr oc =
     (case oc of
        Raises e \<Rightarrow> Inl e
      | Responds response \<Rightarrow>
          then_do (raise_for_status response) (\<lambda>_.
          then_do (json_result response) (\<lambda>result.
          check_result repr result)))"

text \<open>
  The loop \<^verbatim>\<open>for attempt in range(max_retries)\<close>, from the attempt it is about to make.
  Only a \<open>RequestException\<close> reaches the \<^verbatim>\<open>except\<close> clause; every other exception leaves
  the function at once.  A loop that runs out without returning falls off the end of the
  function, which returns \<^verbatim>\<open>None\<close>.
\<close>

function call_loop ::
  "(nat \<Rightarrow> outcome) \<Rightarrow> (json \<Rightarrow> string) \<Rightarrow> json \<Rightarrow> int \<Rightarrow> nat \<Rightarrow> (exn + json) \<times> event list" where
  "call_loop env repr payload max_retries attempt =
     (if int attempt < max_retries then
        (case try_body repr (env attempt) of
           Inr result \<Rightarrow> (Inr result, [Post payload])
         | Inl (RequestException e) \<Rightarrow>
             (if int attempt < max_retries - 1 then
                (let wait_time = 2 ^ attempt;
                     (r, tr) = call_loop env repr payload max_retries (Suc attempt)
                 in (r, [Post payload,
                         Print (''API call failed: '' @ e @ ''. Retrying in '' @ str_nat wait_time @ ''s...''),
                         Sleep wait_time] @ tr))
              else (Inl (PyException (''Gemini API call failed after '' @ str_int max_retries
                                       @ '' attempts: '' @ e)),
                    [Post payload]))
         | Inl e \<Rightarrow> (Inl e, [Post payload]))
      else (Inr JNull, []))"
  by pat_completeness auto
termination
  by (relation "measure (\<lambda>(env, repr, payload, max_retries, attempt). nat (max_retries - int attempt))") auto

definition call_gemini_api_with_backoff ::
  "(nat \<Rightarrow> outcome) \<Rightarrow> (json \<Rightarrow> string) \<Rightarrow> json \<Rightarrow> int \<Rightarrow> (exn + json) \<times> event list" where
  "call_gemini_api_with_backoff env repr payload max_retries = call_loop env repr payload max_retries 0"

section \<open>The request handler\<close>

text \<open>
  What the handler reads of a request: the form field \<^verbatim>\<open>job_description\<close> and the uploaded
  file \<^verbatim>\<open>resume_pdf\<close>, each absent or present.  An uploaded file is a Werkzeug
  \<^verbatim>\<open>FileStorage\<close>: the file name the client gave, the content type its part declares and
  a stream of bytes.  A \<^verbatim>\<open>FileStorage\<close> is falsy exactly when its file name is empty,
  which is how a browser submits a file field left blank.  Its \<^verbatim>\<open>mimetype\<close> is not the
  declared content type as sent: it is the part before the first semicolon, stripped of
  surrounding white space and lower-cased.
\<close>

record file_storage =
  filename :: string
  content_type :: string
  stream :: "byte list"

definition py_isspace :: "char \<Rightarrow> bool" where
  "py_isspace c \<longleftrightarrow> (of_char c :: nat) \<in> set [9, 10, 11, 12, 13, 28, 29, 30, 31, 32, 133, 160]"

definition py_strip :: "string \<Rightarrow> string" where
  "py_strip s = rev (dropWhile py_isspace (rev (dropWhile py_isspace s)))"

definition py_lower_char :: "char \<Rightarrow> char" where
  "py_lower_char c =
     (let n = of_char c :: nat
      in if (65 \<le> n \<and> n \<le> 90) \<or> (192 \<le> n \<and> n \<le> 222 \<and> n \<noteq> 215) then char_of (n + 32) else c)"

definition mimetype :: "file_storage \<Rightarrow> string" where
  "mimetype f = map py_lower_char (py_strip (takeWhile (\<lambda>c. c \<noteq> CHR '';'') (content_type f)))"

record request =
  job_description :: "string option"
  resume_pdf :: "file_storage option"

type_synonym response = "json \<times> nat"

definition error_body :: "string \<Rightarrow> json" where
  "error_body m = JObj [(''error'', JStr m)]"

definition system_instruction :: string where
  "system_instruction =
     ''You are an expert ATS (Applicant Tracking System) and Career Coach. '' @
     ''Analyze the provided resume (PDF) against the job description (text). '' @
     ''Provide an extremely accurate and strict assessment. '' @
     ''Return the feedback strictly in the requested JSON format.''"

definition user_prompt :: "string \<Rightarrow> string" where
  "user_prompt jd =
     ''Analyze the resume against the following Job Description (JD) and provide a structured ATS report. '' @
     ''JD: '' @ jd"

text \<open>The dict literal of lines 113 to 130.\<close>

definition make_payload :: "string \<Rightarrow> json \<Rightarrow> json" where
  "make_payload jd resume_part = JObj
     [(''contents'', JArr
         [JObj [(''role'', JStr ''user''),
                (''parts'', JArr [JObj [(''text'', JStr (user_prompt jd))], resume_part])]]),
      (''generationConfig'', JObj
         [(''responseMimeType'', JStr ''application/json''),
          (''responseSchema'', RESPONSE_SCHEMA)]),
      (''systemInstruction'', JObj
         [(''parts'', JArr [JObj [(''text'', JStr system_instruction)]])])]"

text \<open>\<^verbatim>\<open>api_result['candidates'][0]['content']['parts'][0]['text']\<close>\<close>

definition extract_text :: "json \<Rightarrow> exn + json" where
  "extract_text api_result =
     then_do (getitem_str api_result ''candidates'') (\<lambda>candidates.
     then_do (getitem_0 candidates) (\<lambda>candidate.
     then_do (getitem_str candidate ''content'') (\<lambda>content.
     then_do (getitem_str content ''parts'') (\<lambda>parts.
     then_do (getitem_0 parts) (\<lambda>part.
     getitem_str part ''text'')))))"

text \<open>
  \<^verbatim>\<open>json.loads(json_text)\<close>.  The decoder itself is the parameter \<open>loads\<close>, from a string to
  the decoded value or the exception raised; on a value that is not a string
  \<^verbatim>\<open>json.loads\<close> raises a \<^verbatim>\<open>TypeError\<close> before it decodes anything.
\<close>

definition json_loads :: "(string \<Rightarrow> exn + json) \<Rightarrow> json \<Rightarrow> exn + json" where
  "json_loads loads v =
     (case v of
        JStr s \<Rightarrow> loads s
      | _ \<Rightarrow> Inl (TypeError (''the JSON object must be str, bytes or bytearray, not '' @ type_name v)))"

text \<open>
  \<^verbatim>\<open>all(key in report_data for key in keys)\<close>: the generator stops at the first key that is
  not in the value, and at the first test that raises.
\<close>

fun all_in :: "string list \<Rightarrow> json \<Rightarrow> exn + bool" where
  "all_in [] report_data = Inr True"
| "all_in (key # keys) report_data =
     then_do (py_in key report_data) (\<lambda>b. if b then all_in keys report_data else Inr False)"

text \<open>The inner \<^verbatim>\<open>try\<close> block, lines 137 to 143, then the block with its \<^verbatim>\<open>except\<close> clause.\<close>

definition validate_body :: "(string \<Rightarrow> exn + json) \<Rightarrow> json \<Rightarrow> exn + response" where
  "validate_body loads api_result =
     then_do (extract_text api_result) (\<lambda>json_text.
     then_do (json_loads loads json_text) (\<lambda>report_data.
     then_do (all_in RESPONSE_SCHEMA_required report_data) (\<lambda>ok.
       if ok then Inr (report_data, 200)
       else Inr (error_body ''AI response was missing required fields.'', 500))))"

definition validate_response :: "(string \<Rightarrow> exn + json) \<Rightarrow> json \<Rightarrow> exn + response" where
  "validate_response loads api_result =
     (case validate_body loads api_result of
        Inl (JSONDecodeError m) \<Rightarrow> Inr (error_body ''Failed to parse AI response.'', 500)
      | Inl (KeyError k) \<Rightarrow> Inr (error_body ''Failed to parse AI response.'', 500)
      | Inl e \<Rightarrow> Inl e
      | Inr r \<Rightarrow> Inr r)"

text \<open>The blanket \<^verbatim>\<open>except Exception\<close> clause of the handler.\<close>

definition unexpected :: "(json \<Rightarrow> string) \<Rightarrow> exn \<Rightarrow> response \<times> event list" where
  "unexpected repr e =
     ((error_body (str_exn repr e), 500),
      [Print (''An unexpected error occurred: '' @ str_exn repr e)])"

text \<open>
  \<^verbatim>\<open>analyze_resume\<close>.  It returns the response, the request as the run leaves it (the
  stream of the uploaded file is consumed once the file has been encoded) and the trace
  of events.
\<close>

definition analyze_resume ::
  "(nat \<Rightarrow> outcome) \<Rightarrow> (string \<Rightarrow> exn + json) \<Rightarrow> (json \<Rightarrow> string) \<Rightarrow> request
     \<Rightarrow> response \<times> request \<times> event list" where
  "analyze_resume env loads repr req =
     (case (job_description req, resume_pdf req) of
        (Some jd, Some resume_file) \<Rightarrow>
          if jd = [] \<or> filename resume_file = [] then
            ((error_body ''Missing job description or resume file.'', 400), req, [])
          else if mimetype resume_file \<noteq> ''application/pdf'' then
            ((error_body ''Only PDF files are supported.'', 400), req, [])
          else
            (let (resume_part, stream') = file_to_base64_part (stream resume_file) ''application/pdf'';
                 req' = req\<lparr>resume_pdf := Some (resume_file\<lparr>stream := stream'\<rparr>)\<rparr>;
                 payload = make_payload jd resume_part;
                 (r, tr) = call_gemini_api_with_backoff env repr payload 5
             in case then_do r (validate_response loads) of
                  Inr resp \<Rightarrow> (resp, req', tr)
                | Inl e \<Rightarrow> (let (resp, tr') = unexpected repr e in (resp, req', tr @ tr')))
      | _ \<Rightarrow> ((error_body ''Missing job description or resume file.'', 400), req, []))"

section \<open>Vocabulary of the specification\<close>

text \<open>
  The specification's Payload Builder, \<open>buildPayload(jobDescription, resumeBytes, mimeType)\<close>,
  is lines 98 to 130 of the handler: the file part, then the dict literal.
\<close>

definition build_payload :: "string \<Rightarrow> byte list \<Rightarrow> string \<Rightarrow> json" where
  "build_payload jd resume_bytes mime_type =
     make_payload jd (fst (file_to_base64_part resume_bytes mime_type))"

text \<open>
  A request that passes both input checks: a job description that is present and not
  empty, and an uploaded file that is present, truthy (its file name is not empty) and
  declares the PDF media type.
\<close>

definition valid_request :: "request \<Rightarrow> string \<Rightarrow> file_storage \<Rightarrow> bool" where
  "valid_request req jd resume_file \<longleftrightarrow>
     job_description req = Some jd \<and> jd \<noteq> [] \<and>
     resume_pdf req = Some resume_file \<and> filename resume_file \<noteq> [] \<and>
     mimetype resume_file = ''application/pdf''"

text \<open>The request once the uploaded file has been read to its end.\<close>

definition consumed :: "request \<Rightarrow> file_storage \<Rightarrow> request" where
  "consumed req resume_file = req\<lparr>resume_pdf := Some (resume_file\<lparr>stream := []\<rparr>)\<rparr>"

text \<open>What a trace shows of the outbound call: the payloads posted and the sleeps.\<close>

fun posts :: "event list \<Rightarrow> json list" where
  "posts [] = []"
| "posts (Post p # tr) = p # posts tr"
| "posts (Print s # tr) = posts tr"
| "posts (Sleep n # tr) = posts tr"

fun sleeps :: "event list \<Rightarrow> nat list" where
  "sleeps [] = []"
| "sleeps (Post p # tr) = sleeps tr"
| "sleeps (Print s # tr) = sleeps tr"
| "sleeps (Sleep n # tr) = n # sleeps tr"

section \<open>Sample inputs\<close>

text \<open>
  A request, replies of the service and report texts on which the theorems below are
  run.  \<open>sample_loads\<close> agrees with \<^verbatim>\<open>json.loads\<close> on the four texts named here and is only
  ever applied to them; \<open>sample_repr\<close> stands in for \<^verbatim>\<open>repr\<close>, which none of the runs
  reaches with a value that is not a string.
\<close>

definition sample_jd :: string where
  "sample_jd = ''Looking for a Python backend engineer''"

definition sample_file :: file_storage where
  "sample_file = \<lparr>filename = ''resume.pdf'', content_type = ''application/pdf'',
                   stream = [0x25, 0x50, 0x44, 0x46, 0x2D]\<rparr>"

definition sample_request :: request where
  "sample_request = \<lparr>job_description = Some sample_jd, resume_pdf = Some sample_file\<rparr>"

definition sample_payload :: json where
  "sample_payload = build_payload sample_jd (stream sample_file) ''application/pdf''"

definition sample_repr :: "json \<Rightarrow> string" where
  "sample_repr v = type_name v"

definition report_text :: string where
  \<open>report_text = ''{"match_percentage": "75%", "strengths": "s", "improvement_suggestions": "i", "matching_skills": ["python"], "missing_skills": []}''\<close>

definition report_value :: json where
  "report_value = JObj
     [(''match_percentage'', JStr ''75%''), (''strengths'', JStr ''s''),
      (''improvement_suggestions'', JStr ''i''), (''matching_skills'', JArr [JStr ''python'']),
      (''missing_skills'', JArr [])]"

definition partial_text :: string where
  \<open>partial_text = ''{"match_percentage": "75%", "strengths": "s", "improvement_suggestions": "i", "matching_skills": ["python"]}''\<close>

definition partial_value :: json where
  "partial_value = JObj
     [(''match_percentage'', JStr ''75%''), (''strengths'', JStr ''s''),
      (''improvement_suggestions'', JStr ''i''), (''matching_skills'', JArr [JStr ''python''])]"

definition names_text :: string where
  \<open>names_text = ''["match_percentage", "strengths", "improvement_suggestions", "matching_skills", "missing_skills"]''\<close>

definition names_value :: json where
  "names_value = JArr
     [JStr ''match_percentage'', JStr ''strengths'', JStr ''improvement_suggestions'',
      JStr ''matching_skills'', JStr ''missing_skills'']"


definition sample_loads :: "string \<Rightarrow> exn + json" where
  "sample_loads s =
     (if s = report_text then Inr report_value
      else if s = partial_text then Inr partial_value
      else if s = names_text then Inr names_value
      else Inl (JSONDecodeError ''Expecting value: line 1 column 1 (char 0)''))"

text \<open>
  A response with status 200 around a decoded body, the reply shape of the service around
  a text, and its error reply.
\<close>

definition ok_response :: "json \<Rightarrow> outcome" where
  "ok_response body =
     Responds \<lparr>status_code = 200, reason = ''OK'', url = ''https://generativelanguage.googleapis.com/'',
               json_result = Inr body\<rparr>"

definition reply_with :: "json \<Rightarrow> json" where
  "reply_with text_value =
     JObj [(''candidates'', JArr
       [JObj [(''content'', JObj [(''parts'', JArr [JObj [(''text'', text_value)]])])]])]"

definition quota_reply :: json where
  "quota_reply = JObj [(''error'', JObj [(''message'', JStr ''quota exceeded'')])]"

section \<open>Failures and successes of an attempt\<close>

text \<open>
  What the specification calls a transport-level failure, read on the code: the call of
  \<^verbatim>\<open>requests.post\<close> raises a \<open>RequestException\<close>, or the response has a status that
  \<^verbatim>\<open>raise_for_status\<close> rejects.  \<open>failure_text\<close> is what \<^verbatim>\<open>str(e)\<close> prints of that
  failure.  A successful attempt is a response with a 2xx status whose body decodes to a
  value without an \<^verbatim>\<open>error\<close> entry.
\<close>

fun is_request_exception :: "exn \<Rightarrow> bool" where
  "is_request_exception (RequestException m) = True"
| "is_request_exception e = False"

definition transport_failure :: "outcome \<Rightarrow> bool" where
  "transport_failure oc =
     (case oc of
        Raises e \<Rightarrow> is_request_exception e
      | Responds response \<Rightarrow> 400 \<le> status_code response \<and> status_code response < 600)"

definition failure_text :: "outcome \<Rightarrow> string" where
  "failure_text oc =
     (case oc of
        Raises e \<Rightarrow> str_exn (\<lambda>v. []) e
      | Responds response \<Rightarrow>
          (case raise_for_status response of Inl e \<Rightarrow> str_exn (\<lambda>v. []) e | Inr u \<Rightarrow> []))"

definition success_with :: "outcome \<Rightarrow> json \<Rightarrow> bool" where
  "success_with oc body =
     (case oc of
        Raises e \<Rightarrow> False
      | Responds response \<Rightarrow>
          200 \<le> status_code response \<and> status_code response < 300 \<and>
          json_result response = Inr body \<and> py_in ''error'' body = Inr False)"

section \<open>Sample environments\<close>

text \<open>
  Three environments: one whose first response has status 300 and a decodable body, one
  that fails three times before it answers, one that is down at every attempt.
\<close>

definition redirect_env :: "nat \<Rightarrow> outcome" where
  "redirect_env k =
     (if k = 0 then Responds \<lparr>status_code = 300, reason = ''Multiple Choices'',
                              url = ''https://generativelanguage.googleapis.com/'',
                              json_result = Inr (JObj [(''choices'', JArr [])])\<rparr>
      else ok_response (reply_with (JStr report_text)))"

definition flaky_env :: "nat \<Rightarrow> outcome" where
  "flaky_env k =
     (if k = 0 then Raises (RequestException ''Connection refused'')
      else if k = 1 then Responds \<lparr>status_code = 503, reason = ''Service Unavailable'',
                              url = ''https://generativelanguage.googleapis.com/'',
                              json_result = Inl (RequestException ''Expecting value'')\<rparr>
      else if k = 2 then Raises (RequestException ''Read timed out'')
      else ok_response (reply_with (JStr report_text)))"

definition down_env :: "nat \<Rightarrow> outcome" where
  "down_env k = Responds \<lparr>status_code = 503, reason = ''Down '' @ str_nat k,
                              url = ''https://generativelanguage.googleapis.com/'',
                              json_result = Inl (RequestException ''Expecting value'')\<rparr>"

text \<open>
  Two more environments, one that answers every attempt with the error reply and one that
  answers the first attempt with a report, and three variations of the sample file.
\<close>

definition quota_env :: "nat \<Rightarrow> outcome" where
  "quota_env k = ok_response quota_reply"

definition report_env :: "nat \<Rightarrow> outcome" where
  "report_env k = ok_response (reply_with (JStr report_text))"

definition upper_case_file :: file_storage where
  "upper_case_file = sample_file\<lparr>content_type := ''Application/PDF''\<rparr>"

definition blank_name_png :: file_storage where
  "blank_name_png = sample_file\<lparr>filename := [], content_type := ''image/png''\<rparr>"

definition png_file :: file_storage where
  "png_file = sample_file\<lparr>content_type := ''image/png''\<rparr>"

text \<open>
  An environment that answers the first attempt with a reply around a given text, one whose
  reply has an empty list of candidates, and a PDF upload with a blank file name.
\<close>

definition text_env :: "string \<Rightarrow> nat \<Rightarrow> outcome" where
  "text_env t k = ok_response (reply_with (JStr t))"

definition no_candidates_env :: "nat \<Rightarrow> outcome" where
  "no_candidates_env k = ok_response (JObj [(''candidates'', JArr [])])"

definition blank_name_pdf :: file_storage where
  "blank_name_pdf = sample_file\<lparr>filename := []\<rparr>"

section \<open>One turn of the loop\<close>

text \<open>
  The loop equation unfolds forever under the simplifier, so it is taken out of the simpset and
  replaced by one lemma for each way an attempt can end.
\<close>

declare call_loop.simps [simp del]

lemma call_loop_returns:
  assumes "int a < m" "try_body repr (env a) = Inr result"
  shows "call_loop env repr p m a = (Inr result, [Post p])"
  using assms by (subst call_loop.simps) simp

lemma call_loop_propagates:
  assumes "int a < m" "try_body repr (env a) = Inl e" "\<not> is_request_exception e"
  shows "call_loop env repr p m a = (Inl e, [Post p])"
  using assms by (subst call_loop.simps) (cases e; simp)

lemma call_loop_retries:
  assumes "int a < m - 1" "try_body repr (env a) = Inl (RequestException s)"
  shows "call_loop env repr p m a =
           (fst (call_loop env repr p m (Suc a)),
            [Post p, Print (''API call failed: '' @ s @ ''. Retrying in '' @ str_nat (2 ^ a) @ ''s...''),
             Sleep (2 ^ a)] @ snd (call_loop env repr p m (Suc a)))"
  using assms by (subst call_loop.simps) (simp add: Let_def split: prod.splits)

lemma call_loop_gives_up:
  assumes "int a = m - 1" "try_body repr (env a) = Inl (RequestException s)"
  shows "call_loop env repr p m a =
           (Inl (PyException (''Gemini API call failed after '' @ str_int m @ '' attempts: '' @ s)),
            [Post p])"
  using assms by (subst call_loop.simps) simp

lemma transport_failure_retryable:
  assumes "transport_failure oc"
  shows "try_body repr oc = Inl (RequestException (failure_text oc))"
proof (cases oc)
  case (Raises e)
  then show ?thesis using assms
    by (cases e) (simp_all add: transport_failure_def try_body_def failure_text_def)
next
  case (Responds r)
  then show ?thesis using assms
    by (auto simp: transport_failure_def try_body_def failure_text_def raise_for_status_def then_do_def)
qed

lemma success_with_returns:
  assumes "success_with oc body"
  shows "try_body repr oc = Inr body"
  using assms
  by (cases oc) (auto simp: success_with_def try_body_def raise_for_status_def then_do_def check_result_def)

lemma failures_then_success:
  assumes "int (a + n) < m"
    and "\<And>i. a \<le> i \<Longrightarrow> i < a + n \<Longrightarrow> transport_failure (env i)"
    and "try_body repr (env (a + n)) = Inr body"
  shows "fst (call_loop env repr p m a) = Inr body \<and>
         sleeps (snd (call_loop env repr p m a)) = map (\<lambda>i. 2 ^ i) [a..<a + n] \<and>
         posts (snd (call_loop env repr p m a)) = replicate (Suc n) p"
  using assms
proof (induction n arbitrary: a)
  case 0
  then show ?case by (simp add: call_loop_returns)
next
  case (Suc n)
  have s: "try_body repr (env a) = Inl (RequestException (failure_text (env a)))"
    using Suc.prems(2) [of a] by (simp add: transport_failure_retryable)
  have lt: "int a < m - 1" using Suc.prems(1) by simp
  have ih: "fst (call_loop env repr p m (Suc a)) = Inr body \<and>
         sleeps (snd (call_loop env repr p m (Suc a))) = map (\<lambda>i. 2 ^ i) [Suc a..<Suc a + n] \<and>
         posts (snd (call_loop env repr p m (Suc a))) = replicate (Suc n) p"
    using Suc.prems by (intro Suc.IH) auto
  show ?case
    using ih by (simp add: call_loop_retries [where env = env and repr = repr and a = a, OF lt s] upt_conv_Cons)
qed

lemma failures_to_the_end:
  assumes "int (a + n) = m - 1"
    and "\<And>i. a \<le> i \<Longrightarrow> i \<le> a + n \<Longrightarrow> transport_failure (env i)"
  shows "fst (call_loop env repr p m a) =
           Inl (PyException (''Gemini API call failed after '' @ str_int m @ '' attempts: ''
                             @ failure_text (env (a + n)))) \<and>
         sleeps (snd (call_loop env repr p m a)) = map (\<lambda>i. 2 ^ i) [a..<a + n] \<and>
         posts (snd (call_loop env repr p m a)) = replicate (Suc n) p"
  using assms
proof (induction n arbitrary: a)
  case 0
  then show ?case by (simp add: call_loop_gives_up transport_failure_retryable)
next
  case (Suc n)
  have s: "try_body repr (env a) = Inl (RequestException (failure_text (env a)))"
    using Suc.prems(2) [of a] by (simp add: transport_failure_retryable)
  have lt: "int a < m - 1" using Suc.prems(1) by simp
  have ih: "fst (call_loop env repr p m (Suc a)) =
           Inl (PyException (''Gemini API call failed after '' @ str_int m @ '' attempts: ''
                             @ failure_text (env (Suc a + n)))) \<and>
         sleeps (snd (call_loop env repr p m (Suc a))) = map (\<lambda>i. 2 ^ i) [Suc a..<Suc a + n] \<and>
         posts (snd (call_loop env repr p m (Suc a))) = replicate (Suc n) p"
    using Suc.prems by (intro Suc.IH) auto
  show ?case
    using ih by (simp add: call_loop_retries [where env = env and repr = repr and a = a, OF lt s] upt_conv_Cons)
qed

lemma str_int_5: "str_int 5 = ''5''"
  by (simp add: str_int_def str_nat.simps digit_char_def)

section \<open>The backoff schedule\<close>

lemma flaky_env_facts:
  "transport_failure (flaky_env 0)" "transport_failure (flaky_env 1)" "transport_failure (flaky_env 2)"
  "success_with (flaky_env 3) (reply_with (JStr report_text))"
  by (simp_all add: flaky_env_def transport_failure_def success_with_def ok_response_def reply_with_def)

lemma down_env_failure: "transport_failure (down_env k)"
  by (simp add: down_env_def transport_failure_def)

lemma down_env_text: "failure_text (down_env 4) = ''503 Server Error: Down 4 for url: https://generativelanguage.googleapis.com/''"
  by (simp add: down_env_def failure_text_def raise_for_status_def str_nat.simps digit_char_def)

lemma less_3_cases: "i < (3::nat) \<Longrightarrow> i = 0 \<or> i = 1 \<or> i = 2"
  by arith

text \<open>
  Claim C2, as the code has it.  Let the first \<open>N\<close> attempts, \<open>N < 5\<close>, be transport-level
  failures in the sense of the code (\<^verbatim>\<open>requests.post\<close> raises a \<open>RequestException\<close>, or the
  response has a status from 400 to 599) and let attempt \<open>N\<close> be a 2xx response whose body
  decodes to a value without an \<^verbatim>\<open>error\<close> entry.  Then the call returns that body, sleeps
  exactly \<open>N\<close> times, for \<open>2^0, ..., 2^(N-1)\<close> seconds, and posts \<open>N + 1\<close> times.  If all
  five attempts are such failures, the call posts five times, sleeps 1, 2, 4 and 8
  seconds, and raises an exception whose message ends with the text of the fifth failure.
\<close>

theorem backoff_schedule:
  "(N < 5 \<and> (\<forall>i<N. transport_failure (env i)) \<and> success_with (env N) body \<longrightarrow>
      fst (call_gemini_api_with_backoff env repr payload 5) = Inr body \<and>
      sleeps (snd (call_gemini_api_with_backoff env repr payload 5)) = map (\<lambda>i. 2 ^ i) [0..<N] \<and>
      posts (snd (call_gemini_api_with_backoff env repr payload 5)) = replicate (N + 1) payload)
   \<and>
   ((\<forall>i<5. transport_failure (env i)) \<longrightarrow>
      fst (call_gemini_api_with_backoff env repr payload 5) =
        Inl (PyException (''Gemini API call failed after 5 attempts: '' @ failure_text (env 4))) \<and>
      sleeps (snd (call_gemini_api_with_backoff env repr payload 5)) = [1, 2, 4, 8] \<and>
      posts (snd (call_gemini_api_with_backoff env repr payload 5)) = replicate 5 payload)"
proof (intro conjI impI)
  assume h: "N < 5 \<and> (\<forall>i<N. transport_failure (env i)) \<and> success_with (env N) body"
  then have ok: "try_body repr (env (0 + N)) = Inr body"
    by (simp add: success_with_returns)
  have fl: "\<And>i. 0 \<le> i \<Longrightarrow> i < 0 + N \<Longrightarrow> transport_failure (env i)"
    using h by simp
  have lt: "int (0 + N) < 5" using h by simp
  note r = failures_then_success [where env = env and repr = repr and p = payload, OF lt fl ok]
  show "fst (call_gemini_api_with_backoff env repr payload 5) = Inr body"
    using r by (simp add: call_gemini_api_with_backoff_def)
  show "sleeps (snd (call_gemini_api_with_backoff env repr payload 5)) = map (\<lambda>i. 2 ^ i) [0..<N]"
    using r by (simp add: call_gemini_api_with_backoff_def)
  show "posts (snd (call_gemini_api_with_backoff env repr payload 5)) = replicate (N + 1) payload"
    using r by (simp add: call_gemini_api_with_backoff_def)
next
  assume h: "\<forall>i<5. transport_failure (env i)"
  have fl: "\<And>i. 0 \<le> i \<Longrightarrow> i \<le> 0 + 4 \<Longrightarrow> transport_failure (env i)"
    using h by simp
  have eq: "int (0 + 4) = 5 - 1" by simp
  note r = failures_to_the_end [where env = env and repr = repr and p = payload, OF eq fl]
  have up: "[0..<4] = [0, 1, 2, 3::nat]" by (simp add: upt_rec)
  show "fst (call_gemini_api_with_backoff env repr payload 5) =
        Inl (PyException (''Gemini API call failed after 5 attempts: '' @ failure_text (env 4)))"
    using r by (simp add: call_gemini_api_with_backoff_def str_int_5)
  show "sleeps (snd (call_gemini_api_with_backoff env repr payload 5)) = [1, 2, 4, 8]"
    using r by (simp add: call_gemini_api_with_backoff_def up)
  show "posts (snd (call_gemini_api_with_backoff env repr payload 5)) = replicate 5 payload"
    using r by (simp add: call_gemini_api_with_backoff_def numeral_eq_Suc)
qed

theorem backoff_schedule_witness:
  "fst (call_gemini_api_with_backoff flaky_env sample_repr sample_payload 5) = Inr (reply_with (JStr report_text)) \<and>
   sleeps (snd (call_gemini_api_with_backoff flaky_env sample_repr sample_payload 5)) = [1, 2, 4] \<and>
   fst (call_gemini_api_with_backoff down_env sample_repr sample_payload 5) =
     Inl (PyException ''Gemini API call failed after 5 attempts: 503 Server Error: Down 4 for url: https://generativelanguage.googleapis.com/'') \<and>
   posts (snd (call_gemini_api_with_backoff down_env sample_repr sample_payload 5)) = replicate 5 sample_payload"
proof -
  have f: "\<forall>i<3. transport_failure (flaky_env i)"
    using flaky_env_facts(1-3) less_3_cases by (metis One_nat_def)
  have up: "[0..<3] = [0, 1, 2::nat]" by (simp add: upt_rec)
  have a: "fst (call_gemini_api_with_backoff flaky_env sample_repr sample_payload 5) = Inr (reply_with (JStr report_text)) \<and>
   sleeps (snd (call_gemini_api_with_backoff flaky_env sample_repr sample_payload 5)) = [1, 2, 4]"
    using backoff_schedule [of 3 flaky_env "reply_with (JStr report_text)" sample_repr sample_payload] f
      flaky_env_facts(4) by (simp add: up)
  have b: "fst (call_gemini_api_with_backoff down_env sample_repr sample_payload 5) =
     Inl (PyException ''Gemini API call failed after 5 attempts: 503 Server Error: Down 4 for url: https://generativelanguage.googleapis.com/'') \<and>
   posts (snd (call_gemini_api_with_backoff down_env sample_repr sample_payload 5)) = replicate 5 sample_payload"
    using backoff_schedule [of 0 down_env JNull sample_repr sample_payload] down_env_failure
    by (simp add: down_env_text)
  show ?thesis using a b by simp
qed

text \<open>
  The claim counts every status outside 2xx as a failure.  The code does not:
  \<^verbatim>\<open>raise_for_status\<close> lets a status such as 300 pass, so a first response with status 300
  and a decodable body is returned at once, without a sleep, although a 2xx response was
  ready at the second attempt.
\<close>

theorem redirect_is_no_failure:
  "status_code \<lparr>status_code = 300, reason = ''Multiple Choices'',
                 url = ''https://generativelanguage.googleapis.com/'',
                 json_result = Inr (JObj [(''choices'', JArr [])])\<rparr> \<notin> {200..<300} \<and>
   success_with (redirect_env 1) (reply_with (JStr report_text)) \<and>
   fst (call_gemini_api_with_backoff redirect_env sample_repr sample_payload 5) = Inr (JObj [(''choices'', JArr [])]) \<and>
   fst (call_gemini_api_with_backoff redirect_env sample_repr sample_payload 5) \<noteq> Inr (reply_with (JStr report_text)) \<and>
   sleeps (snd (call_gemini_api_with_backoff redirect_env sample_repr sample_payload 5)) = [] \<and>
   sleeps (snd (call_gemini_api_with_backoff redirect_env sample_repr sample_payload 5)) \<noteq> [2 ^ 0]"
proof -
  have t: "try_body sample_repr (redirect_env 0) = Inr (JObj [(''choices'', JArr [])])"
    by (simp add: redirect_env_def try_body_def raise_for_status_def then_do_def check_result_def)
  have c: "call_gemini_api_with_backoff redirect_env sample_repr sample_payload 5 =
             (Inr (JObj [(''choices'', JArr [])]), [Post sample_payload])"
    unfolding call_gemini_api_with_backoff_def
    by (rule call_loop_returns [where env = redirect_env, OF _ t]) simp
  show ?thesis
    by (simp add: c redirect_env_def success_with_def ok_response_def reply_with_def)
qed

section \<open>The handler on a valid request\<close>

text \<open>
  Once both input checks have passed, the handler encodes the file, builds the payload,
  makes the outbound call with five attempts and validates what comes back; an exception
  of either step ends in the blanket clause.
\<close>

lemma analyze_resume_valid:
  assumes "valid_request req jd f"
  shows "analyze_resume env loads repr req =
     (case then_do (fst (call_gemini_api_with_backoff env repr (build_payload jd (stream f) ''application/pdf'') 5))
             (validate_response loads) of
        Inr resp \<Rightarrow> (resp, consumed req f,
                     snd (call_gemini_api_with_backoff env repr (build_payload jd (stream f) ''application/pdf'') 5))
      | Inl e \<Rightarrow> (fst (unexpected repr e), consumed req f,
                  snd (call_gemini_api_with_backoff env repr (build_payload jd (stream f) ''application/pdf'') 5)
                  @ snd (unexpected repr e)))"
  using assms
  by (simp add: analyze_resume_def valid_request_def build_payload_def consumed_def
        file_to_base64_part_def Let_def split: prod.splits sum.splits)

lemma analyze_resume_call_fails:
  assumes "valid_request req jd f"
    and "call_gemini_api_with_backoff env repr (build_payload jd (stream f) ''application/pdf'') 5 = (Inl e, tr)"
  shows "analyze_resume env loads repr req =
           ((error_body (str_exn repr e), 500), consumed req f,
            tr @ [Print (''An unexpected error occurred: '' @ str_exn repr e)])"
  using assms(2) by (simp add: analyze_resume_valid [OF assms(1)] then_do_def unexpected_def)

lemma analyze_resume_call_returns:
  assumes "valid_request req jd f"
    and "call_gemini_api_with_backoff env repr (build_payload jd (stream f) ''application/pdf'') 5 = (Inr api_result, tr)"
  shows "analyze_resume env loads repr req =
           (case validate_response loads api_result of
              Inr resp \<Rightarrow> (resp, consumed req f, tr)
            | Inl e \<Rightarrow> ((error_body (str_exn repr e), 500), consumed req f,
                        tr @ [Print (''An unexpected error occurred: '' @ str_exn repr e)]))"
  using assms(2) by (simp add: analyze_resume_valid [OF assms(1)] then_do_def unexpected_def split: sum.splits)

lemma sample_mimetype: "mimetype sample_file = ''application/pdf''"
  by code_simp

lemma upper_case_mimetype: "mimetype upper_case_file = ''application/pdf''"
  by code_simp

lemma png_mimetype: "mimetype png_file = ''image/png''"
  by code_simp

lemma sample_request_valid: "valid_request sample_request sample_jd sample_file"
  by (simp add: valid_request_def sample_request_def sample_mimetype) (simp add: sample_jd_def sample_file_def)

lemma report_env_call:
  "call_gemini_api_with_backoff report_env repr p 5 = (Inr (reply_with (JStr report_text)), [Post p])"
  unfolding call_gemini_api_with_backoff_def
  by (rule call_loop_returns)
     (simp_all add: report_env_def ok_response_def try_body_def raise_for_status_def then_do_def
        check_result_def reply_with_def)

lemma extract_reply: "extract_text (reply_with v) = Inr v"
  by (simp add: extract_text_def reply_with_def then_do_def)

lemma report_value_complete: "all_in RESPONSE_SCHEMA_required report_value = Inr True"
  by (simp add: RESPONSE_SCHEMA_required_def report_value_def then_do_def)

lemma sample_loads_report: "sample_loads report_text = Inr report_value"
  by (simp add: sample_loads_def)

lemma validate_report:
  "validate_response sample_loads (reply_with (JStr report_text)) = Inr (report_value, 200)"
  by (simp add: validate_response_def validate_body_def extract_reply then_do_def json_loads_def
        sample_loads_report report_value_complete)

section \<open>The outbound call on an error reply\<close>

text \<open>
  Claim C1 says that a 2xx response whose body has an \<^verbatim>\<open>error\<close> entry is retried like a
  transport failure, five attempts in all.  The code raises a plain \<^verbatim>\<open>Exception\<close> for such a
  body, and the \<^verbatim>\<open>except\<close> clause of the loop catches \<open>RequestException\<close> only.  With the error
  reply \<^verbatim>\<open>{"error": {"message": "quota exceeded"}}\<close> at every attempt, the call posts once,
  not five times, and never sleeps.
\<close>

theorem api_error_not_retried:
  "length (posts (snd (call_gemini_api_with_backoff quota_env sample_repr sample_payload 5))) = 1 \<and>
   length (posts (snd (call_gemini_api_with_backoff quota_env sample_repr sample_payload 5))) \<noteq> 5 \<and>
   sleeps (snd (call_gemini_api_with_backoff quota_env sample_repr sample_payload 5)) = []"
proof -
  have t: "try_body sample_repr (quota_env 0) = Inl (PyException ''Gemini API error: quota exceeded'')"
    by (simp add: quota_env_def ok_response_def quota_reply_def try_body_def raise_for_status_def
          then_do_def check_result_def py_str_def)
  have c: "call_gemini_api_with_backoff quota_env sample_repr sample_payload 5 =
             (Inl (PyException ''Gemini API error: quota exceeded''), [Post sample_payload])"
    unfolding call_gemini_api_with_backoff_def
    by (rule call_loop_propagates [where env = quota_env, OF _ t]) simp_all
  show ?thesis by (simp add: c)
qed

text \<open>
  Claim C1, as the code has it.  When the first attempt yields a 2xx response whose decoded
  body is an object with an \<^verbatim>\<open>error\<close> entry that is an object with a string \<^verbatim>\<open>message\<close>, the
  call makes that one attempt, does not sleep and raises an exception whose message is
  \<^verbatim>\<open>Gemini API error: \<close> followed by the message of the reply.  For a request that passed
  the input checks the handler answers with status 500 and that message as its
  \<^verbatim>\<open>error\<close>, so the reply's message is contained in it.
\<close>

theorem api_error_fails_at_once:
  assumes "env 0 = Responds response"
    and "200 \<le> status_code response" "status_code response < 300"
    and "json_result response = Inr (JObj kvs)"
    and "map_of kvs ''error'' = Some (JObj ekvs)"
    and "map_of ekvs ''message'' = Some (JStr msg)"
    and "valid_request req jd f"
  shows "call_gemini_api_with_backoff env repr payload 5 =
           (Inl (PyException (''Gemini API error: '' @ msg)), [Post payload]) \<and>
         analyze_resume env loads repr req =
           ((error_body (''Gemini API error: '' @ msg), 500), consumed req f,
            [Post (build_payload jd (stream f) ''application/pdf''),
             Print (''An unexpected error occurred: Gemini API error: '' @ msg)]) \<and>
         sublist msg (''Gemini API error: '' @ msg)"
proof -
  have k: "''error'' \<in> fst ` set kvs"
    using assms(5) by (metis domI dom_map_of_conv_image_fst)
  have t: "try_body repr (env 0) = Inl (PyException (''Gemini API error: '' @ msg))"
    using assms(1-6) k
    by (simp add: try_body_def raise_for_status_def then_do_def check_result_def py_str_def)
  have c: "\<And>p. call_gemini_api_with_backoff env repr p 5 =
             (Inl (PyException (''Gemini API error: '' @ msg)), [Post p])"
    unfolding call_gemini_api_with_backoff_def
    by (rule call_loop_propagates [where env = env, OF _ t]) simp_all
  have s: "sublist msg (''Gemini API error: '' @ msg)"
    by (rule sublist_append_leftI)
  show ?thesis
    using c s analyze_resume_call_fails [OF assms(7) c] by simp
qed

theorem api_error_fails_at_once_witness:
  "analyze_resume quota_env sample_loads sample_repr sample_request =
     ((error_body ''Gemini API error: quota exceeded'', 500), consumed sample_request sample_file,
      [Post sample_payload, Print ''An unexpected error occurred: Gemini API error: quota exceeded'']) \<and>
   sublist ''quota exceeded'' ''Gemini API error: quota exceeded''"
  using api_error_fails_at_once [of quota_env
      "\<lparr>status_code = 200, reason = ''OK'', url = ''https://generativelanguage.googleapis.com/'',
        json_result = Inr quota_reply\<rparr>"
      "[(''error'', JObj [(''message'', JStr ''quota exceeded'')])]"
      "[(''message'', JStr ''quota exceeded'')]" "''quota exceeded''"
      sample_request sample_jd sample_file sample_repr sample_payload sample_loads]
    sample_request_valid
  by (simp add: quota_env_def ok_response_def quota_reply_def sample_payload_def)

section \<open>Input validation\<close>

text \<open>
  Claim C5.  A request whose \<^verbatim>\<open>job_description\<close> is absent or empty, or whose \<^verbatim>\<open>resume_pdf\<close>
  is absent (or is a file part left blank, with an empty file name), is answered with
  status 400 and the body \<^verbatim>\<open>{"error": "Missing job description or resume file."}\<close>.  The
  request is left as it came, so the file was not read and no payload was built, and the
  trace is empty, so nothing was posted and nothing slept.
\<close>

theorem missing_input_rejected:
  assumes "job_description req = None \<or> job_description req = Some [] \<or> resume_pdf req = None
           \<or> (\<exists>f. resume_pdf req = Some f \<and> filename f = [])"
  shows "analyze_resume env loads repr req =
           ((error_body ''Missing job description or resume file.'', 400), req, [])"
  using assms by (auto simp: analyze_resume_def split: option.splits)

theorem missing_input_rejected_witness:
  "job_description (sample_request\<lparr>job_description := Some []\<rparr>) = Some [] \<and>
   analyze_resume report_env sample_loads sample_repr (sample_request\<lparr>job_description := Some []\<rparr>) =
     ((error_body ''Missing job description or resume file.'', 400),
      sample_request\<lparr>job_description := Some []\<rparr>, [])"
  using missing_input_rejected [of "sample_request\<lparr>job_description := Some []\<rparr>"]
  by simp

text \<open>
  Claim C6, as the code has it.  A request with a job description that is not empty and
  an uploaded file with a file name that is not empty, whose media type as Werkzeug
  normalises it (the declared content type up to the first semicolon, stripped and
  lower-cased) is not \<^verbatim>\<open>application/pdf\<close>, is answered with status 400 and the body
  \<^verbatim>\<open>{"error": "Only PDF files are supported."}\<close>; the request is untouched and the trace
  is empty.
\<close>

theorem non_pdf_rejected:
  assumes "job_description req = Some jd" "jd \<noteq> []" "resume_pdf req = Some f" "filename f \<noteq> []"
    "mimetype f \<noteq> ''application/pdf''"
  shows "analyze_resume env loads repr req =
           ((error_body ''Only PDF files are supported.'', 400), req, [])"
  using assms by (simp add: analyze_resume_def)

theorem non_pdf_rejected_witness:
  "mimetype png_file \<noteq> ''application/pdf'' \<and>
   analyze_resume report_env sample_loads sample_repr
      \<lparr>job_description = Some sample_jd, resume_pdf = Some png_file\<rparr> =
     ((error_body ''Only PDF files are supported.'', 400),
      \<lparr>job_description = Some sample_jd, resume_pdf = Some png_file\<rparr>, [])"
  using non_pdf_rejected [of "\<lparr>job_description = Some sample_jd, resume_pdf = Some png_file\<rparr>"
      sample_jd png_file report_env sample_loads sample_repr]
  by (simp add: png_mimetype) (simp add: sample_jd_def png_file_def sample_file_def)

text \<open>
  Claim C6 speaks of the declared media type being not exactly \<^verbatim>\<open>application/pdf\<close>, and of
  a file that is present and not empty.  Line 94 compares the normalised media type: a file
  declared as \<^verbatim>\<open>Application/PDF\<close> passes the check and the request is answered with
  status 200.  And an upload that has bytes but a blank file name is falsy, so with the
  declared type \<^verbatim>\<open>image/png\<close> it gets the message of the first check, not of the second.
\<close>

theorem declared_type_not_compared:
  "content_type upper_case_file \<noteq> ''application/pdf'' \<and>
   fst (analyze_resume report_env sample_loads sample_repr
          \<lparr>job_description = Some sample_jd, resume_pdf = Some upper_case_file\<rparr>) = (report_value, 200) \<and>
   content_type blank_name_png \<noteq> ''application/pdf'' \<and> stream blank_name_png \<noteq> [] \<and>
   fst (analyze_resume report_env sample_loads sample_repr
          \<lparr>job_description = Some sample_jd, resume_pdf = Some blank_name_png\<rparr>) =
     (error_body ''Missing job description or resume file.'', 400)"
proof -
  have v: "valid_request \<lparr>job_description = Some sample_jd, resume_pdf = Some upper_case_file\<rparr>
             sample_jd upper_case_file"
    by (simp add: valid_request_def upper_case_mimetype)
       (simp add: sample_jd_def upper_case_file_def sample_file_def)
  have a: "fst (analyze_resume report_env sample_loads sample_repr
          \<lparr>job_description = Some sample_jd, resume_pdf = Some upper_case_file\<rparr>) = (report_value, 200)"
    by (simp add: analyze_resume_call_returns [OF v report_env_call] validate_report)
  have b: "fst (analyze_resume report_env sample_loads sample_repr
          \<lparr>job_description = Some sample_jd, resume_pdf = Some blank_name_png\<rparr>) =
     (error_body ''Missing job description or resume file.'', 400)"
    by (simp add: analyze_resume_def blank_name_png_def)
  show ?thesis
    using a b by (simp add: upper_case_file_def blank_name_png_def sample_file_def)
qed

section \<open>Validation of the reply\<close>

lemma all_in_object: "all_in ks (JObj kvs) = Inr (set ks \<subseteq> fst ` set kvs)"
  by (induction ks) (auto simp: then_do_def)

lemma text_env_call:
  "call_gemini_api_with_backoff (text_env t) repr p 5 = (Inr (reply_with (JStr t)), [Post p])"
  unfolding call_gemini_api_with_backoff_def
  by (rule call_loop_returns)
     (simp_all add: text_env_def ok_response_def try_body_def raise_for_status_def then_do_def
        check_result_def reply_with_def)

lemma no_candidates_env_call:
  "call_gemini_api_with_backoff no_candidates_env repr p 5 = (Inr (JObj [(''candidates'', JArr [])]), [Post p])"
  unfolding call_gemini_api_with_backoff_def
  by (rule call_loop_returns)
     (simp_all add: no_candidates_env_def ok_response_def try_body_def raise_for_status_def then_do_def
        check_result_def)

lemma validate_response_object:
  assumes "extract_text api_result = Inr (JStr json_text)" "loads json_text = Inr (JObj kvs)"
  shows "validate_response loads api_result =
           (if set RESPONSE_SCHEMA_required \<subseteq> fst ` set kvs then Inr (JObj kvs, 200)
            else Inr (error_body ''AI response was missing required fields.'', 500))"
  using assms
  by (simp add: validate_response_def validate_body_def then_do_def json_loads_def all_in_object)


text \<open>
  Claim C3, as the code has it.  Take a request with a job description that is not empty
  and an uploaded file with a file name that is not empty and the (normalised) media type
  \<^verbatim>\<open>application/pdf\<close>.  If the outbound call returns a result, the text extracted from it
  decodes to a JSON object, and the object has all five required keys, then the handler
  answers with status 200 and exactly that object as its body.
\<close>

theorem report_returned_unchanged:
  assumes "valid_request req jd f"
    and "call_gemini_api_with_backoff env repr (build_payload jd (stream f) ''application/pdf'') 5 = (Inr api_result, tr)"
    and "extract_text api_result = Inr (JStr json_text)"
    and "loads json_text = Inr (JObj kvs)"
    and "set RESPONSE_SCHEMA_required \<subseteq> fst ` set kvs"
  shows "analyze_resume env loads repr req = ((JObj kvs, 200), consumed req f, tr)"
  using assms(5)
  by (simp add: analyze_resume_call_returns [OF assms(1,2)]
        validate_response_object [where loads = loads, OF assms(3,4)])

lemma report_value_keys: "set RESPONSE_SCHEMA_required \<subseteq> fst ` set
     [(''match_percentage'', JStr ''75%''), (''strengths'', JStr ''s''),
      (''improvement_suggestions'', JStr ''i''), (''matching_skills'', JArr [JStr ''python'']),
      (''missing_skills'', JArr [])]"
  by (simp add: RESPONSE_SCHEMA_required_def)

theorem report_returned_unchanged_witness:
  "analyze_resume (text_env report_text) sample_loads sample_repr sample_request =
     ((report_value, 200), consumed sample_request sample_file, [Post sample_payload])"
  using report_returned_unchanged [where loads = sample_loads and json_text = report_text and repr = sample_repr,
      OF sample_request_valid text_env_call extract_reply _ report_value_keys]
  by (simp add: sample_loads_report report_value_def sample_payload_def)

text \<open>
  Claim C3 asks of a valid request only a job description that is not empty and a file
  that declares the PDF media type.  An upload that declares \<^verbatim>\<open>application/pdf\<close> and has
  bytes but a blank file name is falsy for the first check: the handler answers with
  status 400, not 200, and never makes the outbound call, although the service was ready
  to answer with a complete report.
\<close>

theorem blank_file_name_is_missing:
  "job_description \<lparr>job_description = Some sample_jd, resume_pdf = Some blank_name_pdf\<rparr> = Some sample_jd \<and>
   sample_jd \<noteq> [] \<and>
   content_type blank_name_pdf = ''application/pdf'' \<and> stream blank_name_pdf \<noteq> [] \<and>
   success_with (text_env report_text 0) (reply_with (JStr report_text)) \<and>
   analyze_resume (text_env report_text) sample_loads sample_repr
      \<lparr>job_description = Some sample_jd, resume_pdf = Some blank_name_pdf\<rparr> =
     ((error_body ''Missing job description or resume file.'', 400),
      \<lparr>job_description = Some sample_jd, resume_pdf = Some blank_name_pdf\<rparr>, [])"
  by (simp add: analyze_resume_def blank_name_pdf_def sample_file_def sample_jd_def success_with_def
        text_env_def ok_response_def reply_with_def)






text \<open>
  Claim C10.  If the \<^verbatim>\<open>candidates\<close> list of the result is present but empty, or the
  \<^verbatim>\<open>parts\<close> list of its first candidate's content is, the extraction raises an
  \<^verbatim>\<open>IndexError\<close>, which the \<^verbatim>\<open>except\<close> clause of the validation does not catch.  The blanket
  clause answers with status 500 and the exception's own text, \<^verbatim>\<open>list index out of range\<close>,
  which is not the fixed message of the validation.
\<close>

theorem empty_list_reaches_blanket_clause:
  assumes "valid_request req jd f"
    and "call_gemini_api_with_backoff env repr (build_payload jd (stream f) ''application/pdf'') 5 = (Inr api_result, tr)"
    and "getitem_str api_result ''candidates'' = Inr (JArr []) \<or>
         (\<exists>candidates candidate content.
            getitem_str api_result ''candidates'' = Inr candidates \<and>
            getitem_0 candidates = Inr candidate \<and>
            getitem_str candidate ''content'' = Inr content \<and>
            getitem_str content ''parts'' = Inr (JArr []))"
  shows "validate_response loads api_result = Inl (IndexError ''list index out of range'') \<and>
         analyze_resume env loads repr req =
           ((error_body ''list index out of range'', 500), consumed req f,
            tr @ [Print ''An unexpected error occurred: list index out of range'']) \<and>
         error_body ''list index out of range'' \<noteq> error_body ''Failed to parse AI response.''"
proof -
  have x: "extract_text api_result = Inl (IndexError ''list index out of range'')"
    using assms(3) by (auto simp: extract_text_def then_do_def)
  have v: "validate_response loads api_result = Inl (IndexError ''list index out of range'')"
    by (simp add: validate_response_def validate_body_def then_do_def x)
  show ?thesis
    by (simp add: v analyze_resume_call_returns [OF assms(1,2)] error_body_def)
qed

theorem empty_list_reaches_blanket_clause_witness:
  "analyze_resume no_candidates_env sample_loads sample_repr sample_request =
     ((error_body ''list index out of range'', 500), consumed sample_request sample_file,
      [Post sample_payload, Print ''An unexpected error occurred: list index out of range''])"
  using empty_list_reaches_blanket_clause [where repr = sample_repr and loads = sample_loads,
      OF sample_request_valid no_candidates_env_call]
  by (simp add: sample_payload_def)

section \<open>Every response\<close>

lemma invalid_request_rejected:
  assumes "\<not> (\<exists>jd f. valid_request req jd f)"
  shows "\<exists>m. analyze_resume env loads repr req = ((error_body m, 400), req, [])"
  using assms
  by (auto simp: analyze_resume_def valid_request_def split: option.splits)

lemma validate_response_shape:
  assumes "validate_response loads api_result = Inr resp"
  shows "(snd resp = 200 \<and> all_in RESPONSE_SCHEMA_required (fst resp) = Inr True) \<or>
         (snd resp = 500 \<and> (\<exists>m. fst resp = error_body m))"
  using assms
  by (auto simp: validate_response_def validate_body_def then_do_def
        split: sum.splits exn.splits if_splits)

lemma names_value_accepted: "all_in RESPONSE_SCHEMA_required names_value = Inr True"
  by (simp add: RESPONSE_SCHEMA_required_def names_value_def then_do_def)

lemma sample_loads_names: "sample_loads names_text = Inr names_value"
  by (simp add: sample_loads_def names_text_def report_text_def partial_text_def)

lemma validate_names:
  "validate_response sample_loads (reply_with (JStr names_text)) = Inr (names_value, 200)"
  by (simp add: validate_response_def validate_body_def extract_reply then_do_def json_loads_def
        sample_loads_names names_value_accepted)

text \<open>
  Claim C9, as the code has it.  Whatever the request, the environment and the decoder,
  the handler answers in one of two ways.  Either the status is 200 and the body is a
  decoded value that passed the test \<^verbatim>\<open>all(key in report_data for key in required)\<close>; when
  that value is a JSON object it has all five required keys.  Or the status is 400 or 500
  and the body is an object with the single key \<^verbatim>\<open>error\<close> and a string under it.
\<close>

theorem response_is_report_or_error:
  "(snd (fst (analyze_resume env loads repr req)) = 200 \<and>
    all_in RESPONSE_SCHEMA_required (fst (fst (analyze_resume env loads repr req))) = Inr True \<and>
    (\<forall>kvs. fst (fst (analyze_resume env loads repr req)) = JObj kvs \<longrightarrow>
           set RESPONSE_SCHEMA_required \<subseteq> fst ` set kvs))
   \<or>
   ((snd (fst (analyze_resume env loads repr req)) = 400 \<or>
     snd (fst (analyze_resume env loads repr req)) = 500) \<and>
    (\<exists>m. fst (fst (analyze_resume env loads repr req)) = error_body m))"
proof (cases "\<exists>jd f. valid_request req jd f")
  case False
  then obtain m where "analyze_resume env loads repr req = ((error_body m, 400), req, [])"
    using invalid_request_rejected by blast
  then show ?thesis by auto
next
  case True
  then obtain jd f where v: "valid_request req jd f" by blast
  obtain r tr where c:
    "call_gemini_api_with_backoff env repr (build_payload jd (stream f) ''application/pdf'') 5 = (r, tr)"
    by (cases "call_gemini_api_with_backoff env repr (build_payload jd (stream f) ''application/pdf'') 5")
  show ?thesis
  proof (cases r)
    case (Inl e)
    then show ?thesis
      using analyze_resume_call_fails [OF v, where env = env and repr = repr and loads = loads] c by auto
  next
    case (Inr api_result)
    note run = analyze_resume_call_returns [OF v, where env = env and repr = repr and loads = loads
        and api_result = api_result and tr = tr]
    show ?thesis
    proof (cases "validate_response loads api_result")
      case (Inl e)
      then show ?thesis using run c Inr by auto
    next
      case inner: (Inr resp)
      from validate_response_shape [OF inner]
      show ?thesis
      proof
        assume ok: "snd resp = 200 \<and> all_in RESPONSE_SCHEMA_required (fst resp) = Inr True"
        then have "\<forall>kvs. fst resp = JObj kvs \<longrightarrow> set RESPONSE_SCHEMA_required \<subseteq> fst ` set kvs"
          by (auto simp: all_in_object)
        then show ?thesis using run c Inr inner ok by auto
      next
        assume "snd resp = 500 \<and> (\<exists>m. fst resp = error_body m)"
        then show ?thesis using run c Inr inner by auto
      qed
    qed
  qed
qed

theorem response_is_report_or_error_witness:
  "snd (fst (analyze_resume (text_env report_text) sample_loads sample_repr sample_request)) = 200 \<and>
   set RESPONSE_SCHEMA_required \<subseteq> fst ` set
     [(''match_percentage'', JStr ''75%''), (''strengths'', JStr ''s''),
      (''improvement_suggestions'', JStr ''i''), (''matching_skills'', JArr [JStr ''python'']),
      (''missing_skills'', JArr [])]"
proof -
  have run: "analyze_resume (text_env report_text) sample_loads sample_repr sample_request =
               ((report_value, 200), consumed sample_request sample_file, [Post sample_payload])"
    by (simp add: analyze_resume_call_returns [OF sample_request_valid text_env_call] validate_report
          sample_payload_def)
  show ?thesis
    using response_is_report_or_error [of "text_env report_text" sample_loads sample_repr sample_request]
    by (simp add: run report_value_def)
qed

text \<open>
  Claim C9 promises the full report with every status 200.  The test of the required keys
  is Python's \<^verbatim>\<open>in\<close>, which on a list is element membership: when the text of the reply is
  the JSON array of the five key names, the handler answers with status 200 and that array,
  a value with no \<^verbatim>\<open>match_percentage\<close> entry to read.
\<close>

theorem array_of_names_is_accepted:
  "analyze_resume (text_env names_text) sample_loads sample_repr sample_request =
     ((names_value, 200), consumed sample_request sample_file, [Post sample_payload]) \<and>
   type_name names_value = ''list'' \<and>
   getitem_str names_value ''match_percentage'' =
     Inl (TypeError ''list indices must be integers or slices, not str'')"
  by (simp add: analyze_resume_call_returns [OF sample_request_valid text_env_call] validate_names
        sample_payload_def) (simp add: names_value_def)

section \<open>The payload\<close>

text \<open>The encoder agrees with RFC 4648 on the usual examples, padding included.\<close>

lemma b64encode_examples:
  "b64encode [0x4D, 0x61, 0x6E] = ''TWFu''"
  "b64encode [0x4D, 0x61] = ''TWE=''"
  "b64encode [0x4D] = ''TQ==''"
  "b64encode [0xFF, 0xFE, 0xFD] = ''//79''"
  "b64encode [0x25, 0x50, 0x44, 0x46, 0x2D] = ''JVBERi0=''"
  by (simp_all add: b64_char_def b64_alphabet_def Let_def)

lemma sample_stream_encoded: "b64encode (stream sample_file) = ''JVBERi0=''"
  by (simp add: sample_file_def b64_char_def b64_alphabet_def Let_def)

lemma b64encode_length: "length (b64encode bs) = 4 * ((length bs + 2) div 3)"
proof (induction bs rule: b64encode.induct)
  case (4 a b c rest)
  have "(5 + length rest) div 3 = Suc (Suc (Suc (length rest)) div 3)" by arith
  then show ?case using 4 by (simp add: Let_def)
qed (simp_all add: Let_def)

lemma posts_append: "posts (xs @ ys) = posts xs @ posts ys"
  by (induction xs rule: posts.induct) simp_all

text \<open>
  Every attempt posts the payload it was given, and the first event of a call that makes
  an attempt is that post.
\<close>

lemma call_loop_trace:
  assumes "int a < m"
  shows "\<exists>tr. snd (call_loop env repr p m a) = Post p # tr \<and> set (posts tr) \<subseteq> {p}"
  using assms
proof (induction "nat (m - int a)" arbitrary: a)
  case 0
  then show ?case by simp
next
  case (Suc k)
  show ?case
  proof (cases "try_body repr (env a)")
    case (Inr result)
    then show ?thesis using Suc.prems by (simp add: call_loop_returns)
  next
    case (Inl e)
    show ?thesis
    proof (cases "is_request_exception e")
      case False
      then show ?thesis using Inl Suc.prems by (simp add: call_loop_propagates)
    next
      case True
      then obtain s where e: "e = RequestException s" by (cases e) auto
      show ?thesis
      proof (cases "int a < m - 1")
        case True
        have "k = nat (m - int (Suc a))" using Suc.hyps(2) by simp
        moreover have "int (Suc a) < m" using True by simp
        ultimately obtain tr where
          "snd (call_loop env repr p m (Suc a)) = Post p # tr \<and> set (posts tr) \<subseteq> {p}"
          using Suc.hyps(1) by blast
        then show ?thesis
          using call_loop_retries [where env = env and repr = repr and a = a and s = s, OF True] Inl e
          by simp
      next
        case False
        then have "int a = m - 1" using Suc.prems by simp
        then show ?thesis
          using call_loop_gives_up [where env = env and repr = repr and a = a and s = s] Inl e
          by simp
      qed
    qed
  qed
qed

lemma handler_trace:
  assumes "valid_request req jd f"
  shows "\<exists>tr. snd (snd (analyze_resume env loads repr req)) =
                Post (build_payload jd (stream f) ''application/pdf'') # tr \<and>
              set (posts tr) \<subseteq> {build_payload jd (stream f) ''application/pdf''} \<and>
              fst (snd (analyze_resume env loads repr req)) = consumed req f"
proof -
  obtain tr where tr:
    "snd (call_gemini_api_with_backoff env repr (build_payload jd (stream f) ''application/pdf'') 5) =
       Post (build_payload jd (stream f) ''application/pdf'') # tr"
    "set (posts tr) \<subseteq> {build_payload jd (stream f) ''application/pdf''}"
    using call_loop_trace [where m = 5 and a = 0 and env = env and repr = repr
        and p = "build_payload jd (stream f) ''application/pdf''"]
    by (auto simp: call_gemini_api_with_backoff_def)
  show ?thesis
    using tr
    by (auto simp: analyze_resume_valid [OF assms] unexpected_def posts_append split: sum.splits)
qed

text \<open>
  Claim C7.  For every job description, resume bytes and media type, the payload built
  from them has, in the parts of its one user message, a text part whose text contains the
  job description as a contiguous substring, followed by an inline data part with the media
  type and the base64 encoding of the bytes; its generation configuration asks for
  \<^verbatim>\<open>application/json\<close> and carries \<^verbatim>\<open>RESPONSE_SCHEMA\<close>, whose required keys are the five
  named.  The handler builds it with the literal \<^verbatim>\<open>application/pdf\<close>, the media type the
  file has passed the check with.
\<close>

theorem payload_contents:
  "then_do (getitem_str (build_payload jd bs mt) ''contents'') (\<lambda>contents.
     then_do (getitem_0 contents) (\<lambda>message. getitem_str message ''parts'')) =
     Inr (JArr [JObj [(''text'', JStr (user_prompt jd))],
                JObj [(''inlineData'', JObj [(''mimeType'', JStr mt), (''data'', JStr (b64encode bs))])]]) \<and>
   sublist jd (user_prompt jd) \<and>
   getitem_str (build_payload jd bs mt) ''generationConfig'' =
     Inr (JObj [(''responseMimeType'', JStr ''application/json''), (''responseSchema'', RESPONSE_SCHEMA)]) \<and>
   getitem_str RESPONSE_SCHEMA ''required'' =
     Inr (JArr [JStr ''match_percentage'', JStr ''strengths'', JStr ''improvement_suggestions'',
                JStr ''matching_skills'', JStr ''missing_skills''])"
proof -
  have "sublist jd (user_prompt jd)"
    unfolding user_prompt_def append_assoc [symmetric] by (rule sublist_append_leftI)
  then show ?thesis
    by (simp add: build_payload_def make_payload_def file_to_base64_part_def then_do_def
          RESPONSE_SCHEMA_def RESPONSE_SCHEMA_required_def)
qed

theorem payload_contents_witness:
  "then_do (getitem_str sample_payload ''contents'') (\<lambda>contents.
     then_do (getitem_0 contents) (\<lambda>message. getitem_str message ''parts'')) =
     Inr (JArr [JObj [(''text'', JStr (''Analyze the resume against the following Job Description (JD) and provide a structured ATS report. JD: Looking for a Python backend engineer''))],
                JObj [(''inlineData'', JObj [(''mimeType'', JStr ''application/pdf''), (''data'', JStr ''JVBERi0='')])]])"
  using payload_contents [of sample_jd "stream sample_file" "''application/pdf''"]
  by (simp add: sample_payload_def user_prompt_def sample_jd_def sample_stream_encoded)

text \<open>
  Claim C8, as the code has it.  Take two runs of the handler, under any two environments,
  decoders and \<^verbatim>\<open>repr\<close>, on requests that pass the input checks with the same job
  description and the same unread bytes in the stream.  In both runs the first event is the
  post of the payload built from those inputs, so building it printed, posted and slept
  nothing and did not raise; every later post carries the same payload; and each request is
  left with its stream read to the end, the one effect of building the payload.
\<close>

theorem payload_fixed_by_inputs:
  assumes "valid_request req1 jd f1" "valid_request req2 jd f2" "stream f1 = stream f2"
  shows "\<exists>tr1 tr2.
     snd (snd (analyze_resume env1 loads1 repr1 req1)) =
       Post (build_payload jd (stream f1) ''application/pdf'') # tr1 \<and>
     snd (snd (analyze_resume env2 loads2 repr2 req2)) =
       Post (build_payload jd (stream f1) ''application/pdf'') # tr2 \<and>
     set (posts tr1) \<subseteq> {build_payload jd (stream f1) ''application/pdf''} \<and>
     set (posts tr2) \<subseteq> {build_payload jd (stream f1) ''application/pdf''} \<and>
     fst (snd (analyze_resume env1 loads1 repr1 req1)) = consumed req1 f1 \<and>
     fst (snd (analyze_resume env2 loads2 repr2 req2)) = consumed req2 f2"
  using handler_trace [OF assms(1), where env = env1 and loads = loads1 and repr = repr1]
    handler_trace [OF assms(2), where env = env2 and loads = loads2 and repr = repr2] assms(3)
  by auto

theorem payload_fixed_by_inputs_witness:
  "\<exists>tr1 tr2.
     snd (snd (analyze_resume flaky_env sample_loads sample_repr sample_request)) =
       Post (build_payload sample_jd (stream sample_file) ''application/pdf'') # tr1 \<and>
     snd (snd (analyze_resume down_env sample_loads sample_repr sample_request)) =
       Post (build_payload sample_jd (stream sample_file) ''application/pdf'') # tr2 \<and>
     set (posts tr1) \<subseteq> {build_payload sample_jd (stream sample_file) ''application/pdf''} \<and>
     set (posts tr2) \<subseteq> {build_payload sample_jd (stream sample_file) ''application/pdf''} \<and>
     fst (snd (analyze_resume flaky_env sample_loads sample_repr sample_request)) =
       consumed sample_request sample_file \<and>
     fst (snd (analyze_resume down_env sample_loads sample_repr sample_request)) =
       consumed sample_request sample_file"
  by (rule payload_fixed_by_inputs [OF sample_request_valid sample_request_valid refl])

text \<open>
  Claim C8 calls the Payload Builder pure.  \<^verbatim>\<open>file_to_base64_part\<close> reads its stream: after
  it has encoded the five bytes of the sample file the stream is at its end, and a second
  invocation on the same stream encodes no bytes and gives a different part.
\<close>

theorem encoding_consumes_the_stream:
  "file_to_base64_part (stream sample_file) ''application/pdf'' =
     (JObj [(''inlineData'', JObj [(''mimeType'', JStr ''application/pdf''), (''data'', JStr ''JVBERi0='')])], []) \<and>
   stream sample_file \<noteq> [] \<and>
   file_to_base64_part [] ''application/pdf'' =
     (JObj [(''inlineData'', JObj [(''mimeType'', JStr ''application/pdf''), (''data'', JStr [])])], [])"
  by (simp add: file_to_base64_part_def sample_stream_encoded) (simp add: sample_file_def)

section \<open>Requests that reach the service\<close>

text \<open>
  The handler posts to the service exactly for the requests that pass both input checks,
  so a statement about a result of the outbound call is a statement about such a request.
\<close>

lemma outbound_call_iff_valid:
  "posts (snd (snd (analyze_resume env loads repr req))) \<noteq> [] \<longleftrightarrow> (\<exists>jd f. valid_request req jd f)"
proof
  assume p: "posts (snd (snd (analyze_resume env loads repr req))) \<noteq> []"
  show "\<exists>jd f. valid_request req jd f"
  proof (rule ccontr)
    assume "\<not> (\<exists>jd f. valid_request req jd f)"
    then obtain m where "analyze_resume env loads repr req = ((error_body m, 400), req, [])"
      using invalid_request_rejected by blast
    then show False using p by simp
  qed
next
  assume "\<exists>jd f. valid_request req jd f"
  then obtain jd f where "valid_request req jd f" by blast
  from handler_trace [OF this, where env = env and loads = loads and repr = repr]
  show "posts (snd (snd (analyze_resume env loads repr req))) \<noteq> []" by auto
qed

end
